theory Spec2Isabelle
  imports Complex_Main "HOL-Library.Sublist"
begin

section \<open>StreamPipe: the request handler of pipe.py\<close>

text \<open>
  The development embeds \<^verbatim>\<open>StreamHandler.serve_stream\<close> of \<^verbatim>\<open>src/pipe.py\<close>.
  The handler is effectful: it talks to the client socket, to the streamlink session and to
  the opened stream. Each effect is recorded as an event of a trace, in program order; the
  behaviour of the collaborators (what the client accepts, what the backend returns, what the
  stream yields) is an explicit argument. An exception is a value: every function returns the
  events it produced, what is left of the client's behaviour, and \<open>None\<close> for a normal
  return or \<open>Some e\<close> for a raised exception.
\<close>

subsection \<open>Values\<close>

type_synonym bytes = string

text \<open>
  Configuration values are what \<^verbatim>\<open>yaml.safe_load\<close> produces. Dictionary keys are
  strings (a key of another type never equals a request path). The non-finite floats are left
  out.
\<close>

datatype yaml =
    YNone
  | YBool bool
  | YInt int
  | YFloat rat
  | YStr string
  | YList "yaml list"
  | YDict "(string \<times> yaml) list"

text \<open>Python's truth value of a configuration value, as tested by \<^verbatim>\<open>not url\<close>.\<close>

fun truthy :: "yaml \<Rightarrow> bool" where
  "truthy YNone = False"
| "truthy (YBool b) = b"
| "truthy (YInt i) = (i \<noteq> 0)"
| "truthy (YFloat q) = (q \<noteq> 0)"
| "truthy (YStr s) = (s \<noteq> [])"
| "truthy (YList xs) = (xs \<noteq> [])"
| "truthy (YDict kvs) = (kvs \<noteq> [])"

text \<open>\<^verbatim>\<open>d.get(key, default)\<close>: the default only when the key is absent.\<close>

definition dict_get :: "(string \<times> yaml) list \<Rightarrow> string \<Rightarrow> yaml \<Rightarrow> yaml" where
  "dict_get d k dflt = (case map_of d k of None \<Rightarrow> dflt | Some v \<Rightarrow> v)"

subsection \<open>Exceptions\<close>

text \<open>
  The classes the handler distinguishes. \<open>OtherException\<close> is any other subclass of
  \<^verbatim>\<open>Exception\<close>; \<open>OtherBaseException\<close> is a \<^verbatim>\<open>BaseException\<close> that is not
  an \<^verbatim>\<open>Exception\<close> (\<^verbatim>\<open>KeyboardInterrupt\<close>, \<^verbatim>\<open>SystemExit\<close>), which
  \<^verbatim>\<open>except Exception\<close> does not catch. The string is \<^verbatim>\<open>str(e)\<close>.
\<close>

datatype exn_class =
    BrokenPipeError
  | ConnectionResetError
  | ConnectionAbortedError
  | NoPluginError
  | NoStreamsError
  | StreamError
  | OtherException
  | OtherBaseException

datatype exn = Exn (exn_class: exn_class) (exn_str: string)

text \<open>Line 119: \<^verbatim>\<open>except (BrokenPipeError, ConnectionResetError, ConnectionAbortedError)\<close>.\<close>

fun is_disconnect :: "exn_class \<Rightarrow> bool" where
  "is_disconnect BrokenPipeError = True"
| "is_disconnect ConnectionResetError = True"
| "is_disconnect ConnectionAbortedError = True"
| "is_disconnect _ = False"

subsection \<open>Collaborators\<close>

text \<open>
  An opened stream: the outcomes of its successive \<^verbatim>\<open>read\<close> calls (bytes, or an
  exception), with every read past the end of the list returning no bytes, and the outcome of
  \<^verbatim>\<open>close\<close>. A stream that never ends is not represented.
\<close>

datatype handle = Handle (reads: "(exn + bytes) list") (close_res: "exn option")

text \<open>
  A variant as returned by \<^verbatim>\<open>session.streams\<close>: an identity, its truth value (the
  operand of \<^verbatim>\<open>or\<close> on line 86) and the outcome of \<^verbatim>\<open>open\<close>.
\<close>

datatype variant = Variant (vid: nat) (variant_truthy: bool) (open_res: "exn + handle")

text \<open>
  The calls that reach the client socket. \<^verbatim>\<open>end_headers\<close> writes the buffered status
  line and headers; \<^verbatim>\<open>send_error\<close> is the library's complete error response, taken
  as one call.
\<close>

datatype client_op =
    EndHeaders
  | Write bytes
  | Flush
  | SendError nat string

datatype event =
    Lookup string
  | NewSession
  | SetOption string yaml
  | Streams yaml
  | SendResponse nat
  | SendHeader string string
  | Client client_op "exn option"
  | Open nat
  | Read yaml "exn + bytes"
  | LogStderr string
  | Close

text \<open>
  The client's behaviour: the outcome of each successive call on the socket, \<open>None\<close>
  for success and \<open>Some e\<close> for the exception it raises. Past the end of the list every
  call succeeds, so \<open>[]\<close> is the client that accepts everything.
\<close>

type_synonym client = "exn option list"

type_synonym run = "event list \<times> client \<times> exn option"

fun client_call :: "client_op \<Rightarrow> client \<Rightarrow> run" where
  "client_call a [] = ([Client a None], [], None)"
| "client_call a (r # c) = ([Client a r], c, r)"

text \<open>Statements in sequence: the first exception ends the sequence.\<close>

fun client_calls :: "client_op list \<Rightarrow> client \<Rightarrow> run" where
  "client_calls [] c = ([], c, None)"
| "client_calls (a # as) c =
     (case client_call a c of
        (ev, c', Some e) \<Rightarrow> (ev, c', Some e)
      | (ev, c', None) \<Rightarrow>
          (case client_calls as c' of (evs, c'', r) \<Rightarrow> (ev @ evs, c'', r)))"

definition after :: "event list \<Rightarrow> run \<Rightarrow> run" where
  "after evs x = (case x of (evs', c, r) \<Rightarrow> (evs @ evs', c, r))"

definition send_error :: "nat \<Rightarrow> string \<Rightarrow> client \<Rightarrow> run" where
  "send_error code message c = client_call (SendError code message) c"

subsection \<open>Request validation (line 50)\<close>

text \<open>
  The request path is decoded by the HTTP library as ISO-8859-1, so every character of the
  stream name is a code point below 256, which is what \<^typ>\<open>char\<close> holds.
  \<^verbatim>\<open>str.islower\<close> and \<^verbatim>\<open>str.isdigit\<close> on one such character are true exactly
  for the code points below.
\<close>

definition islower :: "char \<Rightarrow> bool" where
  "islower c =
     (let n = (of_char c :: nat)
      in (97 \<le> n \<and> n \<le> 122) \<or> n = 170 \<or> n = 181 \<or> n = 186
         \<or> (223 \<le> n \<and> n \<le> 246) \<or> (248 \<le> n \<and> n \<le> 255))"

definition isdigit :: "char \<Rightarrow> bool" where
  "isdigit c =
     (let n = (of_char c :: nat)
      in (48 \<le> n \<and> n \<le> 57) \<or> n = 178 \<or> n = 179 \<or> n = 185)"

definition name_char :: "char \<Rightarrow> bool" where
  "name_char c = (islower c \<or> isdigit c \<or> c = CHR ''-'')"

definition valid_name :: "string \<Rightarrow> bool" where
  "valid_name stream_name = list_all name_char stream_name"

subsection \<open>The pump loop (lines 98 to 115)\<close>

definition CRLF :: bytes where
  "CRLF = [CHR 0x0D, CHR 0x0A]"

definition hex_digit :: "nat \<Rightarrow> char" where
  "hex_digit d = ''0123456789abcdef'' ! d"

text \<open>\<^verbatim>\<open>f"{chunk_size:x}"\<close>: lower-case hexadecimal, no prefix, no padding.\<close>

fun format_x :: "nat \<Rightarrow> string" where
  "format_x n = (if n < 16 then [hex_digit n] else format_x (n div 16) @ [hex_digit (n mod 16)])"

declare format_x.simps [simp del]

definition ts_packet_size :: nat where
  "ts_packet_size = 188"

text \<open>Lines 105 to 108; \<^verbatim>\<open>data[:-remainder]\<close> drops the last \<open>remainder\<close> bytes.\<close>

definition trim :: "bytes \<Rightarrow> bytes" where
  "trim data =
     (let remainder = length data mod ts_packet_size
      in if remainder \<noteq> 0 \<and> length data > ts_packet_size
         then take (length data - remainder) data
         else data)"

text \<open>
  Lines 111 to 115: the four calls on \<^verbatim>\<open>wfile\<close> for one chunk. Each of them,
  \<^verbatim>\<open>flush\<close> included, may raise.
\<close>

definition chunk_ops :: "bytes \<Rightarrow> client_op list" where
  "chunk_ops data = [Write (format_x (length data) @ CRLF), Write data, Write CRLF, Flush]"

text \<open>
  The loop, by recursion on the outcomes of the reads still to come. It returns \<open>None\<close>
  when it leaves through \<^verbatim>\<open>break\<close> and \<open>Some e\<close> when a read or a client call
  raises.
\<close>

fun pump :: "yaml \<Rightarrow> (exn + bytes) list \<Rightarrow> client \<Rightarrow> run" where
  "pump buffer_size [] c = ([Read buffer_size (Inr [])], c, None)"
| "pump buffer_size (Inl e # rs) c = ([Read buffer_size (Inl e)], c, Some e)"
| "pump buffer_size (Inr data # rs) c =
     (if data = [] then ([Read buffer_size (Inr data)], c, None)
      else if trim data = [] then after [Read buffer_size (Inr data)] (pump buffer_size rs c)
      else
        (case client_calls (chunk_ops (trim data)) c of
           (evs, c', Some e) \<Rightarrow> (Read buffer_size (Inr data) # evs, c', Some e)
         | (evs, c', None) \<Rightarrow>
             after (Read buffer_size (Inr data) # evs) (pump buffer_size rs c')))"

subsection \<open>The relay (lines 97 to 124)\<close>

definition terminal :: bytes where
  "terminal = CHR ''0'' # CRLF @ CRLF"

text \<open>The body of the inner \<^verbatim>\<open>try\<close>: the loop, then line 117.\<close>

definition pump_body :: "yaml \<Rightarrow> (exn + bytes) list \<Rightarrow> client \<Rightarrow> run" where
  "pump_body buffer_size rs c =
     (case pump buffer_size rs c of
        (evs, c', Some e) \<Rightarrow> (evs, c', Some e)
      | (evs, c', None) \<Rightarrow> after evs (client_call (Write terminal) c'))"

definition disconnect_message :: "string \<Rightarrow> string" where
  "disconnect_message stream_name =
     ''Client disconnected from stream '' @ [CHR 0x27] @ stream_name @ [CHR 0x27]"

text \<open>
  The inner \<^verbatim>\<open>try\<close> with its \<^verbatim>\<open>except\<close> and \<^verbatim>\<open>finally\<close>: a disconnect
  is logged and absorbed, any other exception stays pending; then the stream is closed, and
  an exception of \<^verbatim>\<open>close\<close> replaces the pending one.
\<close>

definition relay :: "string \<Rightarrow> yaml \<Rightarrow> handle \<Rightarrow> client \<Rightarrow> run" where
  "relay stream_name buffer_size stream_fd c =
     (case pump_body buffer_size (reads stream_fd) c of
        (evs, c', r) \<Rightarrow>
          (let (evs1, pending) =
                 (case r of
                    None \<Rightarrow> (evs, None)
                  | Some e \<Rightarrow>
                      if is_disconnect (exn_class e)
                      then (evs @ [LogStderr (disconnect_message stream_name)], None)
                      else (evs, Some e))
           in (evs1 @ [Close], c',
               (case close_res stream_fd of Some e' \<Rightarrow> Some e' | None \<Rightarrow> pending))))"

subsection \<open>The handler (lines 49 to 133)\<close>

text \<open>
  Line 86: \<^verbatim>\<open>streams.get("best") or list(streams.values())[0]\<close>. The variants are
  kept in the backend's enumeration order. Indexing an empty list raises.
\<close>

definition select_stream :: "(string \<times> variant) list \<Rightarrow> exn + variant" where
  "select_stream streams =
     (let first =
            (case streams of
               [] \<Rightarrow> Inl (Exn OtherException ''list index out of range'')
             | (k, v) # rest \<Rightarrow> Inr v)
      in case map_of streams ''best'' of
           Some b \<Rightarrow> if variant_truthy b then Inr b else first
         | None \<Rightarrow> first)"

definition session_setup :: "(string \<times> yaml) list \<Rightarrow> event list" where
  "session_setup streamlink_options =
     (let user_agent = dict_get streamlink_options ''user_agent'' (YStr ''StreamPipe/1.0'');
          threads = dict_get streamlink_options ''threads'' (YInt 4);
          timeout = dict_get streamlink_options ''timeout'' (YFloat 20)
      in [NewSession,
          SetOption ''http-headers'' (YDict [(''User-Agent'', user_agent)]),
          SetOption ''http-timeout'' timeout,
          SetOption ''stream-segment-threads'' threads,
          SetOption ''ringbuffer-size'' (YInt (32 * 1024 * 1024))])"

definition response_headers :: "event list" where
  "response_headers =
     [SendResponse 200,
      SendHeader ''Content-Type'' ''video/MP2T'',
      SendHeader ''Transfer-Encoding'' ''chunked'',
      SendHeader ''Cache-Control'' ''no-cache'']"

text \<open>The body of the outer \<^verbatim>\<open>try\<close>, lines 80 to 124.\<close>

definition stream_body ::
  "(string \<times> yaml) list \<Rightarrow> (yaml \<Rightarrow> exn + (string \<times> variant) list) \<Rightarrow> string \<Rightarrow> yaml \<Rightarrow> client \<Rightarrow> run"
where
  "stream_body streamlink_options backend stream_name url c =
     (case backend url of
        Inl e \<Rightarrow> ([Streams url], c, Some e)
      | Inr streams \<Rightarrow>
          if streams = [] then after [Streams url] (send_error 404 ''No streams available'' c)
          else
            (case select_stream streams of
               Inl e \<Rightarrow> ([Streams url], c, Some e)
             | Inr stream \<Rightarrow>
                 (case client_call EndHeaders c of
                    (evs, c', Some e) \<Rightarrow> (Streams url # response_headers @ evs, c', Some e)
                  | (evs, c', None) \<Rightarrow>
                      (let buffer_size = dict_get streamlink_options ''buffer_size'' (YInt 8388608)
                       in case open_res stream of
                            Inl e \<Rightarrow>
                              (Streams url # response_headers @ evs @ [Open (vid stream)], c', Some e)
                          | Inr stream_fd \<Rightarrow>
                              after (Streams url # response_headers @ evs @ [Open (vid stream)])
                                (relay stream_name buffer_size stream_fd c')))))"

text \<open>The \<^verbatim>\<open>except\<close> clauses of the outer \<^verbatim>\<open>try\<close>, lines 126 to 133.\<close>

definition handle_exception :: "exn \<Rightarrow> client \<Rightarrow> run" where
  "handle_exception e c =
     (case exn_class e of
        NoPluginError \<Rightarrow> send_error 502 ''No plugin found for this stream URL'' c
      | NoStreamsError \<Rightarrow> send_error 503 ''No streams available from source'' c
      | StreamError \<Rightarrow> send_error 500 (''Stream error: '' @ exn_str e) c
      | OtherBaseException \<Rightarrow> ([], c, Some e)
      | _ \<Rightarrow> send_error 500 (''Server error: '' @ exn_str e) c)"

text \<open>The outer \<^verbatim>\<open>try\<close> around a body: a raised exception goes to the clauses above.\<close>

definition with_handlers :: "run \<Rightarrow> run" where
  "with_handlers x =
     (case x of
        (evs, c', None) \<Rightarrow> (evs, c', None)
      | (evs, c', Some e) \<Rightarrow> after evs (handle_exception e c'))"

definition no_url_message :: "string \<Rightarrow> string" where
  "no_url_message stream_name =
     ''No URL configured for stream '' @ [CHR 0x27] @ stream_name @ [CHR 0x27]"

text \<open>Lines 59 to 62.\<close>

definition resolve_url :: "yaml \<Rightarrow> yaml" where
  "resolve_url stream_config =
     (case stream_config of
        YDict d \<Rightarrow> dict_get d ''url'' YNone
      | _ \<Rightarrow> stream_config)"

definition serve_stream ::
  "(string \<times> yaml) list \<Rightarrow> (string \<times> yaml) list \<Rightarrow> (yaml \<Rightarrow> exn + (string \<times> variant) list)
     \<Rightarrow> string \<Rightarrow> client \<Rightarrow> run"
where
  "serve_stream streams_config streamlink_options backend stream_name c =
     (if \<not> valid_name stream_name then send_error 404 ''Not Found'' c
      else
        (case map_of streams_config stream_name of
           None \<Rightarrow> after [Lookup stream_name] (send_error 404 ''Not Found'' c)
         | Some stream_config \<Rightarrow>
             (let url = resolve_url stream_config
              in if \<not> truthy url
                 then after [Lookup stream_name] (send_error 500 (no_url_message stream_name) c)
                 else
                   after (Lookup stream_name # session_setup streamlink_options)
                     (with_handlers
                        (stream_body streamlink_options backend stream_name url c)))))"

subsection \<open>Reading a trace\<close>

text \<open>
  The byte strings of the calls of \<^verbatim>\<open>wfile.write\<close> that returned, in order. For a
  client that accepts every call their concatenation is the response body. It says nothing of
  a call that raised, which may have sent part of its bytes (see \<open>delivered\<close> below), nor
  of the response that \<^verbatim>\<open>send_error\<close> writes, which is the event \<open>SendError\<close>.
\<close>

fun written :: "event list \<Rightarrow> bytes list" where
  "written [] = []"
| "written (Client (Write b) None # evs) = b # written evs"
| "written (ev # evs) = written evs"


subsection \<open>The name syntax as the specification words it\<close>

text \<open>
  The specification's wording of the allowed syntax: a lower-case ASCII letter, an ASCII
  digit or a hyphen. It is compared with \<open>name_char\<close>, which is what line 50 tests.
\<close>

definition spec_name_char :: "char \<Rightarrow> bool" where
  "spec_name_char c =
     (let n = (of_char c :: nat)
      in (97 \<le> n \<and> n \<le> 122) \<or> (48 \<le> n \<and> n \<le> 57) \<or> n = 45)"

subsection \<open>Classes of events\<close>

text \<open>Two tests on events, used to state what a trace contains.\<close>

fun is_open :: "event \<Rightarrow> bool" where
  "is_open (Open n) = True"
| "is_open _ = False"

text \<open>The events of the pump loop run with read size \<open>n\<close>.\<close>

fun loop_event :: "yaml \<Rightarrow> event \<Rightarrow> bool" where
  "loop_event n (Client (Write b) r) = True"
| "loop_event n (Client Flush r) = True"
| "loop_event n (Read m x) = (m = n)"
| "loop_event n _ = False"

subsection \<open>What a trace says about the reads and the writes\<close>




text \<open>The non-empty results of the reads of a run, in order.\<close>

fun read_data :: "event list \<Rightarrow> bytes list" where
  "read_data [] = []"
| "read_data (Read m (Inr d) # evs) = (if d = [] then read_data evs else d # read_data evs)"
| "read_data (ev # evs) = read_data evs"

text \<open>Some read of the run returned no bytes.\<close>

fun zero_read :: "event list \<Rightarrow> bool" where
  "zero_read [] = False"
| "zero_read (Read m (Inr d) # evs) = (d = [] \<or> zero_read evs)"
| "zero_read (ev # evs) = zero_read evs"

text \<open>The arguments of all the calls of \<^verbatim>\<open>wfile.write\<close> issued, whether they returned or raised.\<close>

fun write_calls :: "event list \<Rightarrow> bytes list" where
  "write_calls [] = []"
| "write_calls (Client (Write b) r # evs) = b # write_calls evs"
| "write_calls (ev # evs) = write_calls evs"

text \<open>Some call of \<^verbatim>\<open>wfile.write\<close> raised.\<close>

fun write_failed :: "event list \<Rightarrow> bool" where
  "write_failed [] = False"
| "write_failed (Client (Write b) (Some e) # evs) = True"
| "write_failed (ev # evs) = write_failed evs"

text \<open>
  The bytes that reached the client through \<^verbatim>\<open>wfile.write\<close>. The call is
  \<^verbatim>\<open>sendall\<close> on the socket: when it raises, an initial part of its argument may have
  been sent already. The parameter \<open>k\<close> is the number of bytes the raising call had sent;
  statements about what the client received hold for every \<open>k\<close>. The response headers and
  the response of \<^verbatim>\<open>send_error\<close> are not body bytes and are not included.
\<close>

fun delivered :: "nat \<Rightarrow> event list \<Rightarrow> bytes" where
  "delivered k [] = []"
| "delivered k (Client (Write b) None # evs) = b @ delivered k evs"
| "delivered k (Client (Write b) (Some e) # evs) = take k b @ delivered k evs"
| "delivered k (ev # evs) = delivered k evs"

text \<open>The events that are neither a read nor a call of \<^verbatim>\<open>wfile.write\<close>.\<close>

fun quiet :: "event \<Rightarrow> bool" where
  "quiet (Read m x) = False"
| "quiet (Client (Write b) r) = False"
| "quiet ev = True"



section \<open>Properties\<close>

subsection \<open>Auxiliary facts\<close>

lemma after_pair [simp]: "after evs (evs', c, r) = (evs @ evs', c, r)"
  by (simp add: after_def)

lemma fst_after [simp]: "fst (after evs x) = evs @ fst x"
  by (cases x) simp

lemma snd_after [simp]: "snd (after evs x) = snd x"
  by (cases x) simp

lemma written_append [simp]: "written (xs @ ys) = written xs @ written ys"
  by (induction xs rule: written.induct) simp_all

lemma client_calls_accepting:
  "client_calls ops [] = (map (\<lambda>a. Client a None) ops, [], None)"
  by (induction ops) simp_all

lemma trim_long:
  assumes "length data mod 188 \<noteq> 0" and "188 < length data"
  shows "trim data = take (length data - length data mod 188) data"
  using assms by (simp add: trim_def ts_packet_size_def)

lemma trim_length:
  "length (trim data) =
     (if length data mod 188 \<noteq> 0 \<and> 188 < length data
      then length data - length data mod 188 else length data)"
  by (simp add: trim_def ts_packet_size_def)

lemma trim_eq_Nil [simp]: "trim data = [] \<longleftrightarrow> data = []"
proof
  assume "trim data = []"
  then have "length (trim data) = 0" by simp
  then show "data = []"
    unfolding trim_length using mod_less_eq_dividend [of "length data" 188]
    by (auto split: if_splits)
qed (simp add: trim_def)

subsection \<open>C2: an unaligned read longer than one packet loses its tail\<close>

text \<open>
  C2. For a read of length \<open>L\<close> with \<open>L mod 188 \<noteq> 0\<close> and \<open>L > 188\<close>, the chunk
  handed to the client is exactly the first \<open>L - L mod 188\<close> bytes of the read. Whatever the
  client does, the iteration issues the four calls for that prefix and the loop then goes on
  with the remaining reads alone, so the dropped tail takes no part in any later iteration.
  With a client that accepts everything the accepted writes are the size line, the prefix
  and the line end, followed by the writes for the remaining reads.
\<close>

theorem trim_discards_tail:
  assumes "length data mod 188 \<noteq> 0" and "188 < length data"
  shows "trim data = take (length data - length data mod 188) data
    \<and> pump buffer_size (Inr data # rs) c =
        (case client_calls (chunk_ops (take (length data - length data mod 188) data)) c of
           (evs, c', Some e) \<Rightarrow> (Read buffer_size (Inr data) # evs, c', Some e)
         | (evs, c', None) \<Rightarrow> after (Read buffer_size (Inr data) # evs) (pump buffer_size rs c'))
    \<and> written (fst (pump buffer_size (Inr data # rs) [])) =
        [format_x (length data - length data mod 188) @ CRLF,
         take (length data - length data mod 188) data, CRLF]
        @ written (fst (pump buffer_size rs []))"
proof -
  let ?k = "length data - length data mod 188"
  have t: "trim data = take ?k data" using assms by (rule trim_long)
  have ne: "data \<noteq> []" using assms by auto
  have ne': "take ?k data \<noteq> []" using t ne trim_eq_Nil by metis
  have len: "length (take ?k data) = ?k" by simp
  have p: "pump buffer_size (Inr data # rs) c =
        (case client_calls (chunk_ops (take ?k data)) c of
           (evs, c', Some e) \<Rightarrow> (Read buffer_size (Inr data) # evs, c', Some e)
         | (evs, c', None) \<Rightarrow> after (Read buffer_size (Inr data) # evs) (pump buffer_size rs c'))" for c
    using ne ne' by (simp add: t)
  have w: "written (fst (pump buffer_size (Inr data # rs) [])) =
        [format_x ?k @ CRLF, take ?k data, CRLF] @ written (fst (pump buffer_size rs []))"
    unfolding p by (simp add: client_calls_accepting chunk_ops_def len del: length_take)
  from t p w show ?thesis by blast
qed

theorem trim_discards_tail_witness:
  "length (replicate 200 (CHR ''a'')) mod 188 \<noteq> 0
   \<and> 188 < length (replicate 200 (CHR ''a''))
   \<and> trim (replicate 200 (CHR ''a'')) = replicate 188 (CHR ''a'')
   \<and> written (fst (pump (YInt 8388608) [Inr (replicate 200 (CHR ''a''))] [])) =
       [''bc'' @ CRLF, replicate 188 (CHR ''a''), CRLF]"
proof -
  let ?d = "replicate 200 (CHR ''a'')"
  have h1: "length ?d mod 188 \<noteq> 0" by simp
  have h2: "188 < length ?d" by simp
  note t = trim_discards_tail [OF h1 h2, of "YInt 8388608" "[]" "[]"]
  have a: "trim ?d = replicate 188 (CHR ''a'')"
    using t [THEN conjunct1] by simp
  have b: "written (fst (pump (YInt 8388608) [Inr ?d] [])) =
       [''bc'' @ CRLF, replicate 188 (CHR ''a''), CRLF]"
    using t [THEN conjunct2, THEN conjunct2]
    by (simp add: format_x.simps hex_digit_def del: pump.simps(3))
  from h1 h2 a b show ?thesis by blast
qed

lemma serve_stream_invalid:
  "\<not> valid_name stream_name \<Longrightarrow>
   serve_stream streams_config streamlink_options backend stream_name c =
     send_error 404 ''Not Found'' c"
  by (simp add: serve_stream_def)

lemma serve_stream_no_url:
  assumes "valid_name stream_name"
    and "map_of streams_config stream_name = Some stream_config"
    and "\<not> truthy (resolve_url stream_config)"
  shows "serve_stream streams_config streamlink_options backend stream_name c =
     after [Lookup stream_name] (send_error 500 (no_url_message stream_name) c)"
  using assms by (simp add: serve_stream_def)

lemma serve_stream_configured:
  assumes "valid_name stream_name"
    and "map_of streams_config stream_name = Some stream_config"
    and "truthy (resolve_url stream_config)"
  shows "serve_stream streams_config streamlink_options backend stream_name c =
     after (Lookup stream_name # session_setup streamlink_options)
       (with_handlers
          (stream_body streamlink_options backend stream_name (resolve_url stream_config) c))"
  using assms by (simp add: serve_stream_def)

lemmas handler_defs =
  serve_stream_def valid_name_def name_char_def islower_def isdigit_def resolve_url_def
  session_setup_def dict_get_def stream_body_def select_stream_def response_headers_def
  relay_def pump_body_def handle_exception_def with_handlers_def send_error_def
  no_url_message_def disconnect_message_def

subsection \<open>C7: names that fail the syntax test\<close>

text \<open>
  C7 as stated does not hold. The test on line 50 uses \<^verbatim>\<open>str.islower\<close> and
  \<^verbatim>\<open>str.isdigit\<close>, which also accept letters and digits outside ASCII. The name made
  of the single character \<open>0xE9\<close> (a lower-case e with an acute accent) is not in the
  specification's syntax; with that name as a key of the routing table the table is
  consulted, the backend is invoked and the response is 200.
\<close>

theorem latin1_name_reaches_backend:
  "\<not> spec_name_char (CHR 0xE9)
   \<and> serve_stream [([CHR 0xE9], YStr ''http://x/y.m3u8'')] []
        (\<lambda>u. Inr [(''best'', Variant 0 True (Inr (Handle [] None)))]) [CHR 0xE9] [] =
      ([Lookup [CHR 0xE9], NewSession,
        SetOption ''http-headers'' (YDict [(''User-Agent'', YStr ''StreamPipe/1.0'')]),
        SetOption ''http-timeout'' (YFloat 20),
        SetOption ''stream-segment-threads'' (YInt 4),
        SetOption ''ringbuffer-size'' (YInt 33554432),
        Streams (YStr ''http://x/y.m3u8''),
        SendResponse 200,
        SendHeader ''Content-Type'' ''video/MP2T'',
        SendHeader ''Transfer-Encoding'' ''chunked'',
        SendHeader ''Cache-Control'' ''no-cache'',
        Client EndHeaders None,
        Open 0,
        Read (YInt 8388608) (Inr []),
        Client (Write terminal) None,
        Close], [], None)"
  by (simp add: handler_defs spec_name_char_def)

lemma name_char_code_points:
  "name_char x =
     (of_char x \<in> {97..122::nat} \<union> {170, 181, 186} \<union> {223..246} \<union> {248..255}
                  \<union> {48..57} \<union> {178, 179, 185} \<union> {45})"
proof -
  have "(x = CHR ''-'') = ((of_char x :: nat) = of_char (CHR ''-''))"
    by (simp only: of_char_eq_iff)
  then have h: "(x = CHR ''-'') = ((of_char x :: nat) = 45)" by simp
  show ?thesis
    unfolding name_char_def islower_def isdigit_def Let_def h by auto
qed

text \<open>
  C7, amended. The characters the test on line 50 accepts are exactly the code points 97 to
  122, 170, 181, 186, 223 to 246, 248 to 255 (lower case for \<^verbatim>\<open>str.islower\<close>), 48 to 57,
  178, 179, 185 (digits for \<^verbatim>\<open>str.isdigit\<close>) and 45 (the hyphen). A stream name
  containing any other character is answered with \<^verbatim>\<open>send_error(404, "Not Found")\<close> and
  nothing else: the routing table is not consulted and the backend is not invoked, whatever
  the table holds, and the handler's outcome is that of the one call on the client. A stream
  name made of accepted characters only reaches the lookup in the routing table, which is
  the first event of its run.
\<close>

theorem name_syntax_decides_lookup:
  fixes streams_config streamlink_options backend stream_name c
  defines "S \<equiv> {97..122::nat} \<union> {170, 181, 186} \<union> {223..246} \<union> {248..255}
                  \<union> {48..57} \<union> {178, 179, 185} \<union> {45}"
  shows "((\<exists>x \<in> set stream_name. of_char x \<notin> S) \<longrightarrow>
            serve_stream streams_config streamlink_options backend stream_name c =
              ([Client (SendError 404 ''Not Found'') (case c of [] \<Rightarrow> None | r # c' \<Rightarrow> r)],
               tl c, (case c of [] \<Rightarrow> None | r # c' \<Rightarrow> r)))
    \<and> ((\<forall>x \<in> set stream_name. of_char x \<in> S) \<longrightarrow>
            hd (fst (serve_stream streams_config streamlink_options backend stream_name c))
              = Lookup stream_name)
    \<and> (\<forall>x. name_char x = (of_char x \<in> S))"
proof -
  have n: "name_char x = (of_char x \<in> S)" for x
    unfolding S_def by (rule name_char_code_points)
  have v: "valid_name stream_name = (\<forall>x \<in> set stream_name. of_char x \<in> S)"
    by (simp add: valid_name_def list_all_iff n)
  have a: "serve_stream streams_config streamlink_options backend stream_name c =
              ([Client (SendError 404 ''Not Found'') (case c of [] \<Rightarrow> None | r # c' \<Rightarrow> r)],
               tl c, (case c of [] \<Rightarrow> None | r # c' \<Rightarrow> r))"
    if "\<exists>x \<in> set stream_name. of_char x \<notin> S"
  proof -
    from that v have "\<not> valid_name stream_name" by blast
    then have "serve_stream streams_config streamlink_options backend stream_name c =
        send_error 404 ''Not Found'' c"
      by (rule serve_stream_invalid)
    then show ?thesis by (cases c) (simp_all add: send_error_def)
  qed
  have b: "hd (fst (serve_stream streams_config streamlink_options backend stream_name c))
              = Lookup stream_name"
    if "\<forall>x \<in> set stream_name. of_char x \<in> S"
  proof -
    from that v have "valid_name stream_name" by blast
    then show ?thesis
      by (simp add: serve_stream_def Let_def split: option.splits)
  qed
  from a b n show ?thesis by blast
qed

theorem name_syntax_decides_lookup_witness:
  "serve_stream [(''Foo'', YStr ''http://x/y.m3u8'')] [] (\<lambda>u. Inr []) ''Foo'' [] =
       ([Client (SendError 404 ''Not Found'') None], [], None)
   \<and> hd (fst (serve_stream [] [] (\<lambda>u. Inr []) [CHR 0xE9, CHR ''-'', CHR ''7''] []))
       = Lookup [CHR 0xE9, CHR ''-'', CHR ''7'']
   \<and> name_char (CHR 0xE9) \<and> \<not> name_char (CHR ''_'')"
proof -
  note t = name_syntax_decides_lookup
    [of "''Foo''" "[(''Foo'', YStr ''http://x/y.m3u8'')]" "[]" "\<lambda>u. Inr []" "[]"]
  note t' = name_syntax_decides_lookup
    [of "[CHR 0xE9, CHR ''-'', CHR ''7'']" "[]" "[]" "\<lambda>u. Inr []" "[]"]
  have a: "serve_stream [(''Foo'', YStr ''http://x/y.m3u8'')] [] (\<lambda>u. Inr []) ''Foo'' [] =
       ([Client (SendError 404 ''Not Found'') None], [], None)"
    using t [THEN conjunct1] by simp
  have b: "hd (fst (serve_stream [] [] (\<lambda>u. Inr []) [CHR 0xE9, CHR ''-'', CHR ''7''] []))
       = Lookup [CHR 0xE9, CHR ''-'', CHR ''7'']"
    using t' [THEN conjunct2, THEN conjunct1] by simp
  have c: "name_char (CHR 0xE9)" "\<not> name_char (CHR ''_'')"
    using t [THEN conjunct2, THEN conjunct2] by simp_all
  from a b c show ?thesis by blast
qed

subsection \<open>C8: a route without a URL\<close>

text \<open>
  C8. For a configured route whose descriptor is the empty string, or a dictionary without
  a \<open>url\<close> entry or with an empty one (or, more generally, whose resolved URL is any value
  Python takes as false), the handler consults the table and issues
  \<^verbatim>\<open>send_error(500, "No URL configured for stream '<name>'")\<close>, and that is the whole
  trace: no session is created and the backend is not invoked.
\<close>

theorem falsy_url_500:
  assumes "valid_name stream_name"
    and "map_of streams_config stream_name = Some stream_config"
    and "stream_config = YStr []
         \<or> (\<exists>d. stream_config = YDict d
                \<and> (map_of d ''url'' = None \<or> map_of d ''url'' = Some (YStr [])))
         \<or> \<not> truthy (resolve_url stream_config)"
  shows "serve_stream streams_config streamlink_options backend stream_name c =
           ([Lookup stream_name,
             Client (SendError 500
                      (''No URL configured for stream '' @ [CHR 0x27] @ stream_name @ [CHR 0x27]))
                    (case c of [] \<Rightarrow> None | r # c' \<Rightarrow> r)],
            tl c, (case c of [] \<Rightarrow> None | r # c' \<Rightarrow> r))"
proof -
  from assms(3) have "\<not> truthy (resolve_url stream_config)"
    by (auto simp: resolve_url_def dict_get_def)
  from serve_stream_no_url [OF assms(1,2) this] show ?thesis
    by (cases c) (simp_all add: send_error_def no_url_message_def)
qed

theorem falsy_url_500_witness:
  "valid_name ''foo''
   \<and> map_of [(''foo'', YDict [(''threads'', YInt 2)])] ''foo'' = Some (YDict [(''threads'', YInt 2)])
   \<and> serve_stream [(''foo'', YDict [(''threads'', YInt 2)])] []
        (\<lambda>u. Inr [(''best'', Variant 0 True (Inr (Handle [] None)))]) ''foo'' [] =
       ([Lookup ''foo'',
         Client (SendError 500 (''No URL configured for stream '' @ [CHR 0x27] @ ''foo'' @ [CHR 0x27]))
           None], [], None)"
proof -
  have h1: "valid_name ''foo''"
    by (simp add: valid_name_def name_char_def islower_def isdigit_def)
  have h2: "map_of [(''foo'', YDict [(''threads'', YInt 2)])] ''foo'' = Some (YDict [(''threads'', YInt 2)])"
    by simp
  have h3: "YDict [(''threads'', YInt 2)] = YStr []
         \<or> (\<exists>d. YDict [(''threads'', YInt 2)] = YDict d
                \<and> (map_of d ''url'' = None \<or> map_of d ''url'' = Some (YStr [])))
         \<or> \<not> truthy (resolve_url (YDict [(''threads'', YInt 2)]))"
    by simp
  from falsy_url_500 [OF h1 h2 h3, of "[]" "\<lambda>u. Inr [(''best'', Variant 0 True (Inr (Handle [] None)))]" "[]"]
  have "serve_stream [(''foo'', YDict [(''threads'', YInt 2)])] []
        (\<lambda>u. Inr [(''best'', Variant 0 True (Inr (Handle [] None)))]) ''foo'' [] =
       ([Lookup ''foo'',
         Client (SendError 500 (''No URL configured for stream '' @ [CHR 0x27] @ ''foo'' @ [CHR 0x27]))
           None], [], None)"
    by simp
  with h1 h2 show ?thesis by blast
qed

subsection \<open>The shape of a trace\<close>

lemma client_calls_loop_events:
  "list_all (\<lambda>a. a = Flush \<or> (\<exists>b. a = Write b)) ops \<Longrightarrow>
   client_calls ops c = (evs, c', r) \<Longrightarrow> list_all (loop_event n) evs"
proof (induction ops arbitrary: c evs c' r)
  case Nil
  then show ?case by simp
next
  case (Cons a ops)
  obtain ev c1 r1 where cc: "client_call a c = (ev, c1, r1)"
    by (cases "client_call a c") auto
  have ev: "list_all (loop_event n) ev"
    using cc Cons.prems(1) by (cases c) auto
  show ?case
  proof (cases r1)
    case None
    obtain evs2 c2 r2 where rest: "client_calls ops c1 = (evs2, c2, r2)"
      by (cases "client_calls ops c1") auto
    from Cons.IH [OF _ rest] Cons.prems(1) have "list_all (loop_event n) evs2" by simp
    with Cons.prems(2) cc None rest ev show ?thesis by auto
  next
    case (Some e)
    with Cons.prems(2) cc ev show ?thesis by auto
  qed
qed

lemma chunk_calls_loop_events:
  "list_all (loop_event n) (fst (client_calls (chunk_ops d) c))"
  using client_calls_loop_events [of "chunk_ops d" c _ _ _ n]
  by (cases "client_calls (chunk_ops d) c") (simp add: chunk_ops_def)

lemma pump_loop_events: "list_all (loop_event buffer_size) (fst (pump buffer_size rs c))"
proof (induction buffer_size rs c rule: pump.induct)
  case (1 buffer_size c)
  then show ?case by simp
next
  case (2 buffer_size e rs c)
  then show ?case by simp
next
  case (3 buffer_size data rs c)
  show ?case
  proof (cases "data = []")
    case True
    then show ?thesis by simp
  next
    case False
    obtain evs c' r where cc: "client_calls (chunk_ops (trim data)) c = (evs, c', r)"
      by (cases "client_calls (chunk_ops (trim data)) c") auto
    have evs: "list_all (loop_event buffer_size) evs"
      using chunk_calls_loop_events [of buffer_size "trim data" c] cc by simp
    show ?thesis
    proof (cases r)
      case None
      with 3(2) [OF False _ cc [symmetric, unfolded None]] False cc evs show ?thesis
        by simp
    next
      case (Some e)
      with False cc evs show ?thesis by simp
    qed
  qed
qed

lemma pump_body_loop_events: "list_all (loop_event buffer_size) (fst (pump_body buffer_size rs c))"
proof -
  obtain evs c' r where p: "pump buffer_size rs c = (evs, c', r)"
    by (cases "pump buffer_size rs c") auto
  have "list_all (loop_event buffer_size) evs"
    using pump_loop_events [of buffer_size rs c] p by simp
  then show ?thesis
    unfolding pump_body_def p by (cases r; cases c') simp_all
qed

lemma relay_events:
  "\<exists>evs lg. fst (relay stream_name buffer_size stream_fd c) = evs @ lg @ [Close]
     \<and> list_all (loop_event buffer_size) evs \<and> (lg = [] \<or> lg = [LogStderr (disconnect_message stream_name)])"
proof -
  obtain evs c' r where p: "pump_body buffer_size (reads stream_fd) c = (evs, c', r)"
    by (cases "pump_body buffer_size (reads stream_fd) c") auto
  have "list_all (loop_event buffer_size) evs"
    using pump_body_loop_events [of buffer_size "reads stream_fd" c] p by simp
  then show ?thesis
    unfolding relay_def p by (cases r) auto
qed

lemma handle_exception_events:
  "fst (handle_exception e c) = [] \<or> (\<exists>code msg r. fst (handle_exception e c) = [Client (SendError code msg) r])"
  by (cases c; cases "exn_class e") (simp_all add: handle_exception_def send_error_def)

lemma stream_body_opened:
  assumes "backend url = Inr streams" and "streams \<noteq> []" and "select_stream streams = Inr v"
    and "open_res v = Inr stream_fd" and "c = [] \<or> hd c = None"
  shows "stream_body streamlink_options backend stream_name url c =
     after (Streams url # response_headers @ [Client EndHeaders None, Open (vid v)])
       (relay stream_name (dict_get streamlink_options ''buffer_size'' (YInt 8388608))
          stream_fd (tl c))"
  using assms by (cases c) (auto simp: stream_body_def)

lemma filter_loop_events_open: "list_all (loop_event n) evs \<Longrightarrow> filter is_open evs = []"
proof (induction evs)
  case Nil
  then show ?case by simp
next
  case (Cons ev evs)
  then show ?case by (cases "(n, ev)" rule: loop_event.cases) simp_all
qed

lemma relay_no_open: "filter is_open (fst (relay stream_name buffer_size stream_fd c)) = []"
  using relay_events [of stream_name buffer_size stream_fd c]
  by (auto simp: filter_loop_events_open)

lemma handle_exception_no_open: "filter is_open (fst (handle_exception e c)) = []"
  using handle_exception_events [of e c] by auto

lemma setup_no_open: "filter is_open (session_setup streamlink_options) = []"
  by (simp add: session_setup_def)

lemma headers_no_open: "filter is_open response_headers = []"
  by (simp add: response_headers_def)

lemma fst_with_handlers:
  "fst (with_handlers x) =
     fst x @ (case snd (snd x) of None \<Rightarrow> [] | Some e \<Rightarrow> fst (handle_exception e (fst (snd x))))"
  by (cases x; cases "snd (snd x)") (auto simp: with_handlers_def)

lemma outcome_with_handlers:
  "snd (snd (with_handlers x)) =
     (case snd (snd x) of None \<Rightarrow> None | Some e \<Rightarrow> snd (snd (handle_exception e (fst (snd x)))))"
  by (cases x; cases "snd (snd x)") (auto simp: with_handlers_def)

lemma handled_no_open:
  "filter is_open (case r of None \<Rightarrow> [] | Some e \<Rightarrow> fst (handle_exception e c)) = []"
  by (cases r) (simp_all add: handle_exception_no_open)

lemma loop_event_read:
  "list_all (loop_event n) evs \<Longrightarrow> Read m x \<in> set evs \<Longrightarrow> m = n"
  by (induction evs) auto

lemma relay_reads:
  assumes "Read m x \<in> set (fst (relay stream_name buffer_size stream_fd c))"
  shows "m = buffer_size"
proof -
  from relay_events [of stream_name buffer_size stream_fd c]
  obtain evs lg where e: "fst (relay stream_name buffer_size stream_fd c) = evs @ lg @ [Close]"
    and l: "list_all (loop_event buffer_size) evs"
    and g: "lg = [] \<or> lg = [LogStderr (disconnect_message stream_name)]"
    by blast
  from assms e g have "Read m x \<in> set evs" by auto
  with l show ?thesis by (rule loop_event_read)
qed

lemma stream_body_reads:
  "Read m x \<in> set (fst (stream_body streamlink_options backend stream_name url c)) \<Longrightarrow>
   m = dict_get streamlink_options ''buffer_size'' (YInt 8388608)"
  by (cases c)
     (auto simp: stream_body_def send_error_def response_headers_def
           dest: relay_reads split: sum.splits if_splits option.splits)

lemma handle_exception_reads: "Read m x \<notin> set (fst (handle_exception e c))"
  using handle_exception_events [of e c] by auto

lemma serve_stream_reads:
  "Read m x \<in> set (fst (serve_stream streams_config streamlink_options backend stream_name c)) \<Longrightarrow>
   m = dict_get streamlink_options ''buffer_size'' (YInt 8388608)"
  by (cases c)
     (auto simp: serve_stream_def send_error_def session_setup_def fst_with_handlers
                 handle_exception_reads Let_def
           dest: stream_body_reads split: option.splits if_splits)

subsection \<open>C10: which variant is opened\<close>

text \<open>
  C10. For a non-empty set of variants, line 86 selects the variant keyed \<open>best\<close> when
  there is one and its truth value is true, and otherwise the first variant in the backend's
  enumeration order. In the handler, for a configured route whose backend returns these
  variants, the selected variant is the only one on which \<^verbatim>\<open>open\<close> is called, and it
  is called once (provided the client accepted the response headers, which are written just
  before; if that write raises, nothing is opened).
\<close>

theorem best_or_first:
  assumes "streams \<noteq> []"
  shows "(\<forall>b. map_of streams ''best'' = Some b \<and> variant_truthy b \<longrightarrow> select_stream streams = Inr b)
    \<and> ((map_of streams ''best'' = None \<or> (\<exists>b. map_of streams ''best'' = Some b \<and> \<not> variant_truthy b))
         \<longrightarrow> select_stream streams = Inr (snd (hd streams)))
    \<and> (\<forall>stream_config v.
          valid_name stream_name \<and> map_of streams_config stream_name = Some stream_config
          \<and> truthy (resolve_url stream_config) \<and> backend (resolve_url stream_config) = Inr streams
          \<and> select_stream streams = Inr v
          \<longrightarrow> filter is_open (fst (serve_stream streams_config streamlink_options backend stream_name c))
               = (if c = [] \<or> hd c = None then [Open (vid v)] else []))"
proof (intro conjI allI impI)
  fix b assume "map_of streams ''best'' = Some b \<and> variant_truthy b"
  then show "select_stream streams = Inr b" by (simp add: select_stream_def)
next
  assume "map_of streams ''best'' = None \<or> (\<exists>b. map_of streams ''best'' = Some b \<and> \<not> variant_truthy b)"
  with assms show "select_stream streams = Inr (snd (hd streams))"
    by (cases streams) (auto simp: select_stream_def)
next
  fix stream_config v
  assume h: "valid_name stream_name \<and> map_of streams_config stream_name = Some stream_config
          \<and> truthy (resolve_url stream_config) \<and> backend (resolve_url stream_config) = Inr streams
          \<and> select_stream streams = Inr v"
  let ?url = "resolve_url stream_config"
  have s: "serve_stream streams_config streamlink_options backend stream_name c =
     after (Lookup stream_name # session_setup streamlink_options)
       (with_handlers (stream_body streamlink_options backend stream_name ?url c))"
    using h by (intro serve_stream_configured) simp_all
  have b: "filter is_open (fst (stream_body streamlink_options backend stream_name ?url c)) =
      (if c = [] \<or> hd c = None then [Open (vid v)] else [])"
    using h assms
    by (cases c; cases "open_res v")
       (auto simp: stream_body_def headers_no_open relay_no_open)
  show "filter is_open (fst (serve_stream streams_config streamlink_options backend stream_name c))
               = (if c = [] \<or> hd c = None then [Open (vid v)] else [])"
    unfolding s by (simp add: fst_with_handlers setup_no_open handled_no_open b)
qed

theorem best_or_first_witness:
  "[(''720p'', Variant 1 True (Inr (Handle [] None))), (''best'', Variant 2 True (Inr (Handle [] None)))] \<noteq> []
   \<and> select_stream [(''720p'', Variant 1 True (Inr (Handle [] None))),
                     (''best'', Variant 2 True (Inr (Handle [] None)))]
       = Inr (Variant 2 True (Inr (Handle [] None)))
   \<and> select_stream [(''720p'', Variant 1 True (Inr (Handle [] None))),
                     (''480p'', Variant 3 True (Inr (Handle [] None)))]
       = Inr (Variant 1 True (Inr (Handle [] None)))
   \<and> filter is_open (fst (serve_stream [(''foo'', YStr ''http://x/y.m3u8'')] []
        (\<lambda>u. Inr [(''720p'', Variant 1 True (Inr (Handle [] None))),
                   (''best'', Variant 2 True (Inr (Handle [] None)))]) ''foo'' []))
       = [Open 2]"
proof -
  let ?v1 = "Variant 1 True (Inr (Handle [] None))"
  let ?v2 = "Variant 2 True (Inr (Handle [] None))"
  let ?v3 = "Variant 3 True (Inr (Handle [] None))"
  let ?s = "[(''720p'', ?v1), (''best'', ?v2)]"
  let ?s' = "[(''720p'', ?v1), (''480p'', ?v3)]"
  have n: "?s \<noteq> []" and n': "?s' \<noteq> []" by simp_all
  note t = best_or_first [OF n, of "''foo''" "[(''foo'', YStr ''http://x/y.m3u8'')]" "\<lambda>u. Inr ?s" "[]" "[]"]
  note t' = best_or_first [OF n', of "''foo''" "[(''foo'', YStr ''http://x/y.m3u8'')]" "\<lambda>u. Inr ?s'" "[]" "[]"]
  have a: "select_stream ?s = Inr ?v2"
    using t [THEN conjunct1] by simp
  have b: "select_stream ?s' = Inr ?v1"
    using t' [THEN conjunct2, THEN conjunct1] by simp
  have v: "valid_name ''foo''"
    by (simp add: valid_name_def name_char_def islower_def isdigit_def)
  have c: "filter is_open (fst (serve_stream [(''foo'', YStr ''http://x/y.m3u8'')] [] (\<lambda>u. Inr ?s) ''foo'' []))
       = [Open 2]"
    using t [THEN conjunct2, THEN conjunct2, rule_format, of "YStr ''http://x/y.m3u8''" ?v2] v a
    by (simp add: resolve_url_def)
  from n a b c show ?thesis by blast
qed

subsection \<open>C6: where the relay options come from\<close>

text \<open>
  C6 as stated does not hold: the handler reads every option from the global
  \<^verbatim>\<open>streamlink_options\<close> and takes nothing but \<open>url\<close> from a route's descriptor. A
  route that carries its own \<open>user_agent\<close>, \<open>threads\<close>, \<open>timeout\<close> and
  \<open>buffer_size\<close>, with no global options, is served with the built-in defaults.
\<close>

theorem per_route_overrides_ignored:
  "serve_stream
     [(''foo'', YDict [(''url'', YStr ''http://x/y.m3u8''), (''user_agent'', YStr ''Custom/2.0''),
                       (''threads'', YInt 1), (''timeout'', YFloat 5), (''buffer_size'', YInt 1024)])]
     [] (\<lambda>u. Inr [(''best'', Variant 0 True (Inr (Handle [] None)))]) ''foo'' [] =
   ([Lookup ''foo'', NewSession,
     SetOption ''http-headers'' (YDict [(''User-Agent'', YStr ''StreamPipe/1.0'')]),
     SetOption ''http-timeout'' (YFloat 20),
     SetOption ''stream-segment-threads'' (YInt 4),
     SetOption ''ringbuffer-size'' (YInt 33554432),
     Streams (YStr ''http://x/y.m3u8''),
     SendResponse 200,
     SendHeader ''Content-Type'' ''video/MP2T'',
     SendHeader ''Transfer-Encoding'' ''chunked'',
     SendHeader ''Cache-Control'' ''no-cache'',
     Client EndHeaders None,
     Open 0,
     Read (YInt 8388608) (Inr []),
     Client (Write terminal) None,
     Close], [], None)"
  by (simp add: handler_defs)

text \<open>
  C6, amended. The options handed to the backend and the read size are the global options,
  with the built-in defaults for the absent ones; a route's descriptor contributes its URL
  and nothing else. Two routing tables whose descriptors for the name resolve to the same URL
  give the same run; the session is configured from \<^verbatim>\<open>streamlink_options\<close> alone; and
  every read asks for the global \<open>buffer_size\<close> (default 8388608).
\<close>

theorem options_are_global:
  assumes "valid_name stream_name"
    and "map_of streams_config stream_name = Some stream_config"
    and "map_of streams_config' stream_name = Some stream_config'"
    and "resolve_url stream_config = resolve_url stream_config'"
    and "truthy (resolve_url stream_config)"
  shows "serve_stream streams_config streamlink_options backend stream_name c =
         serve_stream streams_config' streamlink_options backend stream_name c
    \<and> take 6 (fst (serve_stream streams_config streamlink_options backend stream_name c)) =
        [Lookup stream_name, NewSession,
         SetOption ''http-headers''
           (YDict [(''User-Agent'', dict_get streamlink_options ''user_agent'' (YStr ''StreamPipe/1.0''))]),
         SetOption ''http-timeout'' (dict_get streamlink_options ''timeout'' (YFloat 20)),
         SetOption ''stream-segment-threads'' (dict_get streamlink_options ''threads'' (YInt 4)),
         SetOption ''ringbuffer-size'' (YInt 33554432)]
    \<and> (\<forall>m x. Read m x \<in> set (fst (serve_stream streams_config streamlink_options backend stream_name c))
          \<longrightarrow> m = dict_get streamlink_options ''buffer_size'' (YInt 8388608))"
proof -
  have e: "serve_stream streams_config streamlink_options backend stream_name c =
         serve_stream streams_config' streamlink_options backend stream_name c"
    using assms(2,3,4) by (simp add: serve_stream_def)
  have t: "take 6 (fst (serve_stream streams_config streamlink_options backend stream_name c)) =
        [Lookup stream_name, NewSession,
         SetOption ''http-headers''
           (YDict [(''User-Agent'', dict_get streamlink_options ''user_agent'' (YStr ''StreamPipe/1.0''))]),
         SetOption ''http-timeout'' (dict_get streamlink_options ''timeout'' (YFloat 20)),
         SetOption ''stream-segment-threads'' (dict_get streamlink_options ''threads'' (YInt 4)),
         SetOption ''ringbuffer-size'' (YInt 33554432)]"
    unfolding serve_stream_configured [OF assms(1,2,5)]
    by (simp add: session_setup_def)
  from e t serve_stream_reads show ?thesis by blast
qed


theorem options_are_global_witness:
  "serve_stream
     [(''foo'', YDict [(''url'', YStr ''http://x/y.m3u8''), (''user_agent'', YStr ''Custom/2.0'')])]
     [(''threads'', YInt 2)] (\<lambda>u. Inr []) ''foo'' [] =
   serve_stream [(''foo'', YStr ''http://x/y.m3u8'')] [(''threads'', YInt 2)] (\<lambda>u. Inr []) ''foo'' []
   \<and> take 6 (fst (serve_stream
        [(''foo'', YDict [(''url'', YStr ''http://x/y.m3u8''), (''user_agent'', YStr ''Custom/2.0'')])]
        [(''threads'', YInt 2)] (\<lambda>u. Inr []) ''foo'' [])) =
       [Lookup ''foo'', NewSession,
        SetOption ''http-headers'' (YDict [(''User-Agent'', YStr ''StreamPipe/1.0'')]),
        SetOption ''http-timeout'' (YFloat 20),
        SetOption ''stream-segment-threads'' (YInt 2),
        SetOption ''ringbuffer-size'' (YInt 33554432)]"
proof -
  let ?d = "YDict [(''url'', YStr ''http://x/y.m3u8''), (''user_agent'', YStr ''Custom/2.0'')]"
  have h1: "valid_name ''foo''"
    by (simp add: valid_name_def name_char_def islower_def isdigit_def)
  have h2: "map_of [(''foo'', ?d)] ''foo'' = Some ?d" by simp
  have h3: "map_of [(''foo'', YStr ''http://x/y.m3u8'')] ''foo'' = Some (YStr ''http://x/y.m3u8'')"
    by simp
  have h4: "resolve_url ?d = resolve_url (YStr ''http://x/y.m3u8'')"
    by (simp add: resolve_url_def dict_get_def)
  have h5: "truthy (resolve_url ?d)"
    by (simp add: resolve_url_def dict_get_def)
  note t = options_are_global [OF h1 h2 h3 h4 h5, of "[(''threads'', YInt 2)]" "\<lambda>u. Inr []" "[]"]
  from t [THEN conjunct1] t [THEN conjunct2, THEN conjunct1] show ?thesis
    by (simp add: dict_get_def)
qed

subsection \<open>C5: the response headers and the opening of the stream\<close>

text \<open>
  C5. The claim is that the status line and the headers are sent only after the selected
  variant has been opened. The handler sends them on lines 88 to 92 and calls
  \<^verbatim>\<open>stream.open()\<close> on line 95. With a variant whose \<^verbatim>\<open>open\<close> raises
  \<^verbatim>\<open>StreamError\<close>, the client has accepted the 200 response headers before the
  failure, and the clause on line 130 then issues \<^verbatim>\<open>send_error(500, ...)\<close> on a response
  that is already committed.
\<close>

theorem headers_committed_before_open:
  "serve_stream [(''foo'', YStr ''http://x/y.m3u8'')] []
     (\<lambda>u. Inr [(''best'', Variant 0 True (Inl (Exn StreamError ''boom'')))]) ''foo'' [] =
   ([Lookup ''foo'', NewSession,
     SetOption ''http-headers'' (YDict [(''User-Agent'', YStr ''StreamPipe/1.0'')]),
     SetOption ''http-timeout'' (YFloat 20),
     SetOption ''stream-segment-threads'' (YInt 4),
     SetOption ''ringbuffer-size'' (YInt 33554432),
     Streams (YStr ''http://x/y.m3u8''),
     SendResponse 200,
     SendHeader ''Content-Type'' ''video/MP2T'',
     SendHeader ''Transfer-Encoding'' ''chunked'',
     SendHeader ''Cache-Control'' ''no-cache'',
     Client EndHeaders None,
     Open 0,
     Client (SendError 500 ''Stream error: boom'') None], [], None)"
  by (simp add: handler_defs)

subsection \<open>The accepted writes of a run\<close>

lemma pump_body_run:
  assumes "pump buffer_size rs c = (evs, c', r)"
  shows "pump_body buffer_size rs c =
     (case r of
        Some e \<Rightarrow> (evs, c', Some e)
      | None \<Rightarrow> (evs @ [Client (Write terminal) (case c' of [] \<Rightarrow> None | x # xs \<Rightarrow> x)],
                 tl c', (case c' of [] \<Rightarrow> None | x # xs \<Rightarrow> x)))"
  unfolding pump_body_def assms by (cases r; cases c') simp_all

lemma relay_written:
  assumes "pump buffer_size (reads stream_fd) c = (evs, c', r)"
  shows "written (fst (relay stream_name buffer_size stream_fd c)) =
     written evs @ (if r = None \<and> (c' = [] \<or> hd c' = None) then [terminal] else [])"
  unfolding relay_def pump_body_run [OF assms]
  by (cases r; cases c'; cases "hd c'") (auto split: if_splits)

lemma written_handle_exception: "written (fst (handle_exception e c)) = []"
  using handle_exception_events [of e c] by auto

lemma written_setup: "written (session_setup streamlink_options) = []"
  by (simp add: session_setup_def)

lemma written_headers: "written response_headers = []"
  by (simp add: response_headers_def)

lemma written_with_handlers: "written (fst (with_handlers x)) = written (fst x)"
  by (cases "snd (snd x)") (simp_all add: fst_with_handlers written_handle_exception)

lemma serve_stream_opened:
  assumes "valid_name stream_name"
    and "map_of streams_config stream_name = Some stream_config"
    and "truthy (resolve_url stream_config)"
    and "backend (resolve_url stream_config) = Inr streams"
    and "streams \<noteq> []"
    and "select_stream streams = Inr v"
    and "open_res v = Inr stream_fd"
    and "c = [] \<or> hd c = None"
  shows "serve_stream streams_config streamlink_options backend stream_name c =
     after (Lookup stream_name # session_setup streamlink_options)
       (with_handlers
          (after (Streams (resolve_url stream_config) # response_headers
                  @ [Client EndHeaders None, Open (vid v)])
             (relay stream_name (dict_get streamlink_options ''buffer_size'' (YInt 8388608))
                stream_fd (tl c))))"
  unfolding serve_stream_configured [OF assms(1-3)]
  using stream_body_opened [of backend "resolve_url stream_config", OF assms(4-8)]
  by simp

lemma read_data_append [simp]: "read_data (xs @ ys) = read_data xs @ read_data ys"
  by (induction xs rule: read_data.induct) simp_all

lemma zero_read_append [simp]: "zero_read (xs @ ys) = (zero_read xs \<or> zero_read ys)"
  by (induction xs rule: zero_read.induct) simp_all

lemma write_calls_append [simp]: "write_calls (xs @ ys) = write_calls xs @ write_calls ys"
  by (induction xs rule: write_calls.induct) simp_all

lemma write_failed_append [simp]: "write_failed (xs @ ys) = (write_failed xs \<or> write_failed ys)"
  by (induction xs rule: write_failed.induct) simp_all

lemma delivered_append [simp]: "delivered k (xs @ ys) = delivered k xs @ delivered k ys"
  by (induction k xs rule: delivered.induct) simp_all

lemma quiet_read_data [simp]: "list_all quiet evs \<Longrightarrow> read_data evs = []"
  by (induction evs rule: read_data.induct) simp_all

lemma quiet_zero_read [simp]: "list_all quiet evs \<Longrightarrow> \<not> zero_read evs"
  by (induction evs rule: zero_read.induct) simp_all

lemma quiet_write_calls [simp]: "list_all quiet evs \<Longrightarrow> write_calls evs = []"
  by (induction evs rule: write_calls.induct) simp_all

lemma quiet_write_failed [simp]: "list_all quiet evs \<Longrightarrow> \<not> write_failed evs"
  by (induction evs rule: write_failed.induct) simp_all

lemma quiet_delivered [simp]: "list_all quiet evs \<Longrightarrow> delivered k evs = []"
  by (induction k evs rule: delivered.induct) simp_all









lemma terminal_bytes: "terminal = [CHR ''0'', CHR 0x0D, CHR 0x0A, CHR 0x0D, CHR 0x0A]"
  by (simp add: terminal_def CRLF_def)





lemma quiet_setup: "list_all quiet (session_setup streamlink_options)"
  by (simp add: session_setup_def)

lemma quiet_headers: "list_all quiet response_headers"
  by (simp add: response_headers_def)


lemma quiet_handle_exception: "list_all quiet (fst (handle_exception e c))"
  using handle_exception_events [of e c] by auto







subsection \<open>C1: the lengths of the chunks\<close>




subsection \<open>Closing the stream\<close>

lemma loop_events_no_close: "list_all (loop_event n) evs \<Longrightarrow> Close \<notin> set evs"
  by (induction evs) auto

lemma relay_close_once:
  "count_list (fst (relay stream_name buffer_size stream_fd c)) Close = 1"
proof -
  from relay_events [of stream_name buffer_size stream_fd c]
  obtain evs lg where e: "fst (relay stream_name buffer_size stream_fd c) = evs @ lg @ [Close]"
    and l: "list_all (loop_event buffer_size) evs"
    and g: "lg = [] \<or> lg = [LogStderr (disconnect_message stream_name)]"
    by blast
  have "count_list evs Close = 0" using loop_events_no_close [OF l] by simp
  moreover have "count_list lg Close = 0" using g by auto
  ultimately show ?thesis unfolding e by simp
qed

lemma handle_exception_no_close: "count_list (fst (handle_exception e c)) Close = 0"
  using handle_exception_events [of e c] by auto

lemma with_handlers_close:
  "count_list (fst (with_handlers x)) Close = count_list (fst x) Close"
  by (cases "snd (snd x)") (simp_all add: fst_with_handlers handle_exception_no_close)

lemma relay_disconnect_absorbed:
  assumes "pump_body buffer_size (reads stream_fd) c = (evs, c', Some e)"
    and "is_disconnect (exn_class e)"
  shows "relay stream_name buffer_size stream_fd c =
     (evs @ [LogStderr (disconnect_message stream_name), Close], c', close_res stream_fd)"
  unfolding relay_def assms(1) using assms(2)
  by (cases "close_res stream_fd") simp_all

subsection \<open>C4: the stream is closed once\<close>

text \<open>
  C4. Once \<^verbatim>\<open>stream.open()\<close> has succeeded, the run of the handler contains exactly one
  \<^verbatim>\<open>close\<close> of the stream, however the pump loop ends: through \<^verbatim>\<open>break\<close>, through a
  disconnect of the client, or through any other exception of a read or a write. When the
  body of the inner \<^verbatim>\<open>try\<close> raises one of the three disconnect errors, the error is
  logged and absorbed: the inner statement ends with the outcome of \<^verbatim>\<open>close\<close> alone, and
  when \<^verbatim>\<open>close\<close> returns the handler returns normally, the close being its last action.
\<close>

theorem close_exactly_once:
  assumes "valid_name stream_name"
    and "map_of streams_config stream_name = Some stream_config"
    and "truthy (resolve_url stream_config)"
    and "backend (resolve_url stream_config) = Inr streams"
    and "streams \<noteq> []"
    and "select_stream streams = Inr v"
    and "open_res v = Inr stream_fd"
    and "c = [] \<or> hd c = None"
  shows "count_list (fst (serve_stream streams_config streamlink_options backend stream_name c)) Close = 1
    \<and> (\<forall>evs c' e.
          pump_body (dict_get streamlink_options ''buffer_size'' (YInt 8388608))
            (reads stream_fd) (tl c) = (evs, c', Some e)
          \<and> is_disconnect (exn_class e)
          \<longrightarrow> relay stream_name (dict_get streamlink_options ''buffer_size'' (YInt 8388608))
                stream_fd (tl c)
                = (evs @ [LogStderr (disconnect_message stream_name), Close], c', close_res stream_fd)
              \<and> (close_res stream_fd = None
                   \<longrightarrow> snd (snd (serve_stream streams_config streamlink_options backend
                                       stream_name c)) = None
                       \<and> last (fst (serve_stream streams_config streamlink_options backend
                                       stream_name c)) = Close))"
proof -
  let ?bs = "dict_get streamlink_options ''buffer_size'' (YInt 8388608)"
  note s = serve_stream_opened
    [where backend = backend and streamlink_options = streamlink_options, OF assms]
  have n: "count_list (session_setup streamlink_options) Close = 0"
    "count_list response_headers Close = 0"
    by (simp_all add: session_setup_def response_headers_def)
  have a: "count_list (fst (serve_stream streams_config streamlink_options backend stream_name c)) Close = 1"
    unfolding s by (simp add: with_handlers_close relay_close_once n)
  have b: "snd (snd (serve_stream streams_config streamlink_options backend stream_name c)) = None
      \<and> last (fst (serve_stream streams_config streamlink_options backend stream_name c)) = Close"
    if p: "pump_body ?bs (reads stream_fd) (tl c) = (evs, c', Some e)"
      and d: "is_disconnect (exn_class e)" and cl: "close_res stream_fd = None"
    for evs c' e
    unfolding s relay_disconnect_absorbed [OF p d] cl
    by (simp add: with_handlers_def)
  from a b relay_disconnect_absorbed show ?thesis by blast
qed

theorem close_exactly_once_witness:
  "count_list (fst (serve_stream [(''foo'', YStr ''http://x/y.m3u8'')] []
      (\<lambda>u. Inr [(''best'', Variant 0 True (Inr (Handle [Inr (replicate 200 (CHR ''a''))] None)))])
      ''foo'' [None, None, Some (Exn BrokenPipeError ''Broken pipe'')])) Close = 1
   \<and> snd (snd (serve_stream [(''foo'', YStr ''http://x/y.m3u8'')] []
      (\<lambda>u. Inr [(''best'', Variant 0 True (Inr (Handle [Inr (replicate 200 (CHR ''a''))] None)))])
      ''foo'' [None, None, Some (Exn BrokenPipeError ''Broken pipe'')])) = None
   \<and> last (fst (serve_stream [(''foo'', YStr ''http://x/y.m3u8'')] []
      (\<lambda>u. Inr [(''best'', Variant 0 True (Inr (Handle [Inr (replicate 200 (CHR ''a''))] None)))])
      ''foo'' [None, None, Some (Exn BrokenPipeError ''Broken pipe'')])) = Close"
proof -
  let ?fd = "Handle [Inr (replicate 200 (CHR ''a''))] None"
  let ?v = "Variant 0 True (Inr ?fd)"
  let ?be = "\<lambda>u::yaml. Inr [(''best'', ?v)] :: exn + (string \<times> variant) list"
  let ?c = "[None, None, Some (Exn BrokenPipeError ''Broken pipe'')]"
  have h1: "valid_name ''foo''"
    by (simp add: valid_name_def name_char_def islower_def isdigit_def)
  have h2: "map_of [(''foo'', YStr ''http://x/y.m3u8'')] ''foo'' = Some (YStr ''http://x/y.m3u8'')"
    by simp
  have h3: "truthy (resolve_url (YStr ''http://x/y.m3u8''))" by (simp add: resolve_url_def)
  have h4: "?be (resolve_url (YStr ''http://x/y.m3u8'')) = Inr [(''best'', ?v)]" by simp
  have h5: "[(''best'', ?v)] \<noteq> []" by simp
  have h6: "select_stream [(''best'', ?v)] = Inr ?v" by (simp add: select_stream_def)
  have h7: "open_res ?v = Inr ?fd" by simp
  have h8: "?c = [] \<or> hd ?c = None" by simp
  note t = close_exactly_once [where backend = ?be and streamlink_options = "[]",
      OF h1 h2 h3 h4 h5 h6 h7 h8]
  have p: "pump_body (dict_get [] ''buffer_size'' (YInt 8388608)) (reads ?fd) (tl ?c) =
      ([Read (YInt 8388608) (Inr (replicate 200 (CHR ''a''))),
        Client (Write (''bc'' @ CRLF)) None,
        Client (Write (replicate 188 (CHR ''a''))) (Some (Exn BrokenPipeError ''Broken pipe''))],
       [], Some (Exn BrokenPipeError ''Broken pipe''))"
    by (simp add: pump_body_def dict_get_def trim_def ts_packet_size_def chunk_ops_def
          format_x.simps hex_digit_def)
  have d: "is_disconnect (exn_class (Exn BrokenPipeError ''Broken pipe''))" by simp
  have cl: "close_res ?fd = None" by simp
  from t [THEN conjunct1]
    t [THEN conjunct2, rule_format, OF conjI [OF p d], THEN conjunct2, rule_format, OF cl]
  show ?thesis by simp
qed

subsection \<open>C3: one read of 200 bytes, then the end of the stream\<close>

text \<open>
  C3. For a configured route whose selected variant opens a stream whose first read returns
  200 bytes and whose second read returns none, and a client that accepts every call, the
  body is written in four calls: the bytes \<open>b\<close>, \<open>c\<close>, CR, LF; the first 188 bytes of
  the read; CR, LF; and \<open>0\<close>, CR, LF, CR, LF. No call raises, so these are the bytes the
  client receives; the last 12 bytes of the read are not written. The handler's outcome is
  that of \<^verbatim>\<open>close\<close>, and when \<^verbatim>\<open>close\<close> returns the run is exactly the events
  listed, with no error response.
\<close>

theorem two_hundred_byte_read:
  assumes "valid_name stream_name"
    and "map_of streams_config stream_name = Some stream_config"
    and "truthy (resolve_url stream_config)"
    and "backend (resolve_url stream_config) = Inr streams"
    and "streams \<noteq> []"
    and "select_stream streams = Inr v"
    and "open_res v = Inr stream_fd"
    and "reads stream_fd = Inr data # Inr [] # rest"
    and "length data = 200"
  shows "concat (written (fst (serve_stream streams_config streamlink_options backend stream_name [])))
           = [CHR ''b'', CHR ''c'', CHR 0x0D, CHR 0x0A] @ take 188 data
             @ [CHR 0x0D, CHR 0x0A, CHR ''0'', CHR 0x0D, CHR 0x0A, CHR 0x0D, CHR 0x0A]
    \<and> written (fst (serve_stream streams_config streamlink_options backend stream_name []))
           = [[CHR ''b'', CHR ''c'', CHR 0x0D, CHR 0x0A], take 188 data, [CHR 0x0D, CHR 0x0A],
              [CHR ''0'', CHR 0x0D, CHR 0x0A, CHR 0x0D, CHR 0x0A]]
    \<and> \<not> write_failed (fst (serve_stream streams_config streamlink_options backend stream_name []))
    \<and> delivered k (fst (serve_stream streams_config streamlink_options backend stream_name []))
           = [CHR ''b'', CHR ''c'', CHR 0x0D, CHR 0x0A] @ take 188 data
             @ [CHR 0x0D, CHR 0x0A, CHR ''0'', CHR 0x0D, CHR 0x0A, CHR 0x0D, CHR 0x0A]
    \<and> snd (snd (serve_stream streams_config streamlink_options backend stream_name []))
           = (case close_res stream_fd of None \<Rightarrow> None
              | Some e \<Rightarrow> snd (snd (handle_exception e [])))
    \<and> (close_res stream_fd = None \<longrightarrow>
          fst (serve_stream streams_config streamlink_options backend stream_name []) =
            Lookup stream_name # session_setup streamlink_options
            @ Streams (resolve_url stream_config) # response_headers
            @ [Client EndHeaders None, Open (vid v),
               Read (dict_get streamlink_options ''buffer_size'' (YInt 8388608)) (Inr data),
               Client (Write [CHR ''b'', CHR ''c'', CHR 0x0D, CHR 0x0A]) None,
               Client (Write (take 188 data)) None,
               Client (Write [CHR 0x0D, CHR 0x0A]) None,
               Client Flush None,
               Read (dict_get streamlink_options ''buffer_size'' (YInt 8388608)) (Inr []),
               Client (Write [CHR ''0'', CHR 0x0D, CHR 0x0A, CHR 0x0D, CHR 0x0A]) None,
               Close])"
proof -
  let ?bs = "dict_get streamlink_options ''buffer_size'' (YInt 8388608)"
  let ?tr = "fst (serve_stream streams_config streamlink_options backend stream_name [])"
  let ?loop = "[Read ?bs (Inr data),
       Client (Write [CHR ''b'', CHR ''c'', CHR 0x0D, CHR 0x0A]) None,
       Client (Write (take 188 data)) None,
       Client (Write [CHR 0x0D, CHR 0x0A]) None, Client Flush None, Read ?bs (Inr []),
       Client (Write [CHR ''0'', CHR 0x0D, CHR 0x0A, CHR 0x0D, CHR 0x0A]) None, Close]"
  have c: "([]::client) = [] \<or> hd ([]::client) = None" by simp
  note s = serve_stream_opened
    [where backend = backend and streamlink_options = streamlink_options, OF assms(1-7) c]
  have t: "trim data = take 188 data"
    using trim_long [of data] assms(9) by simp
  have ne: "data \<noteq> []" "take 188 data \<noteq> []" using assms(9) by auto
  have p: "pump ?bs (reads stream_fd) [] =
     (butlast (butlast ?loop), [], None)"
    unfolding assms(8) using ne assms(9)
    by (simp add: t client_calls_accepting chunk_ops_def format_x.simps hex_digit_def CRLF_def)
  have r: "relay stream_name ?bs stream_fd [] = (?loop, [], close_res stream_fd)"
    unfolding relay_def pump_body_run [OF p]
    by (cases "close_res stream_fd") (simp_all add: terminal_bytes)
  have tr: "?tr = Lookup stream_name # session_setup streamlink_options
            @ Streams (resolve_url stream_config) # response_headers
            @ [Client EndHeaders None, Open (vid v)] @ ?loop
            @ (case close_res stream_fd of None \<Rightarrow> [] | Some e \<Rightarrow> fst (handle_exception e []))"
    unfolding s by (simp add: fst_with_handlers r cong: option.case_cong)
  have q: "list_all quiet (Lookup stream_name # session_setup streamlink_options
            @ Streams (resolve_url stream_config) # response_headers
            @ [Client EndHeaders None, Open (vid v)])"
    by (simp add: quiet_setup quiet_headers)
  have q': "list_all quiet (case close_res stream_fd of None \<Rightarrow> []
                             | Some e \<Rightarrow> fst (handle_exception e []))"
    by (cases "close_res stream_fd") (simp_all add: quiet_handle_exception)
  have w: "written ?tr
           = [[CHR ''b'', CHR ''c'', CHR 0x0D, CHR 0x0A], take 188 data, [CHR 0x0D, CHR 0x0A],
              [CHR ''0'', CHR 0x0D, CHR 0x0A, CHR 0x0D, CHR 0x0A]]"
    unfolding s
    by (simp add: written_with_handlers written_setup written_headers relay_written [OF p]
          terminal_bytes)
  have f: "\<not> write_failed ?tr"
    unfolding tr using q q' by simp
  have d: "delivered k ?tr = [CHR ''b'', CHR ''c'', CHR 0x0D, CHR 0x0A] @ take 188 data
             @ [CHR 0x0D, CHR 0x0A, CHR ''0'', CHR 0x0D, CHR 0x0A, CHR 0x0D, CHR 0x0A]"
    unfolding tr using q q' by simp
  have o: "snd (snd (serve_stream streams_config streamlink_options backend stream_name []))
           = (case close_res stream_fd of None \<Rightarrow> None
              | Some e \<Rightarrow> snd (snd (handle_exception e [])))"
    unfolding s by (cases "close_res stream_fd") (simp_all add: outcome_with_handlers r)
  have b: "concat (written ?tr) = [CHR ''b'', CHR ''c'', CHR 0x0D, CHR 0x0A] @ take 188 data
             @ [CHR 0x0D, CHR 0x0A, CHR ''0'', CHR 0x0D, CHR 0x0A, CHR 0x0D, CHR 0x0A]"
    unfolding w by simp
  have e: "close_res stream_fd = None \<longrightarrow> ?tr =
            Lookup stream_name # session_setup streamlink_options
            @ Streams (resolve_url stream_config) # response_headers
            @ [Client EndHeaders None, Open (vid v)] @ ?loop"
    unfolding tr by simp
  from b w f d o e show ?thesis by simp
qed

theorem two_hundred_byte_read_witness:
  "length (replicate 200 (CHR ''a'')) = 200
   \<and> concat (written (fst (serve_stream [(''foo'', YStr ''http://x/y.m3u8'')] []
        (\<lambda>u. Inr [(''best'', Variant 0 True
                     (Inr (Handle [Inr (replicate 200 (CHR ''a'')), Inr []] None)))])
        ''foo'' []))) =
       [CHR ''b'', CHR ''c'', CHR 0x0D, CHR 0x0A] @ replicate 188 (CHR ''a'')
       @ [CHR 0x0D, CHR 0x0A, CHR ''0'', CHR 0x0D, CHR 0x0A, CHR 0x0D, CHR 0x0A]"
proof -
  let ?fd = "Handle [Inr (replicate 200 (CHR ''a'')), Inr []] None"
  let ?v = "Variant 0 True (Inr ?fd)"
  let ?be = "\<lambda>u::yaml. Inr [(''best'', ?v)] :: exn + (string \<times> variant) list"
  have h1: "valid_name ''foo''"
    by (simp add: valid_name_def name_char_def islower_def isdigit_def)
  have h2: "map_of [(''foo'', YStr ''http://x/y.m3u8'')] ''foo'' = Some (YStr ''http://x/y.m3u8'')"
    by simp
  have h3: "truthy (resolve_url (YStr ''http://x/y.m3u8''))" by (simp add: resolve_url_def)
  have h4: "?be (resolve_url (YStr ''http://x/y.m3u8'')) = Inr [(''best'', ?v)]" by simp
  have h5: "[(''best'', ?v)] \<noteq> []" by simp
  have h6: "select_stream [(''best'', ?v)] = Inr ?v" by (simp add: select_stream_def)
  have h7: "open_res ?v = Inr ?fd" by simp
  have h8: "reads ?fd = Inr (replicate 200 (CHR ''a'')) # Inr [] # []" by simp
  have h9: "length (replicate 200 (CHR ''a'')) = 200" by simp
  note t = two_hundred_byte_read [where backend = ?be and streamlink_options = "[]",
      OF h1 h2 h3 h4 h5 h6 h7 h8 h9]
  from t [THEN conjunct1] h9 show ?thesis by simp
qed

subsection \<open>C9: the terminal chunk\<close>




end
